theory Spec2Isabelle
  imports Complex_Main "HOL-Library.Sublist"
begin

section \<open>Python values used by \<^verbatim>\<open>generate_gif.py\<close>\<close>

text \<open>
  The module builds HTML documents as Python strings and writes them as UTF-8. A string is
  modelled by the list of bytes of its UTF-8 encoding, so that equality of two documents is
  equality of the bytes written. The three characters outside ASCII that the module uses are
  named here.
\<close>

definition box_light :: string where
  \<comment> \<open>U+2500, box drawings light horizontal, written \<^verbatim>\<open>"\u2500"\<close>:
      the glyph of an empty bar cell\<close>
  "box_light = [CHR 0xE2, CHR 0x94, CHR 0x80]"

definition box_heavy :: string where
  \<comment> \<open>U+2501, box drawings heavy horizontal, written \<^verbatim>\<open>"\u2501"\<close>:
      the glyph of a filled bar cell\<close>
  "box_heavy = [CHR 0xE2, CHR 0x94, CHR 0x81]"

definition pound_sign :: string where
  \<comment> \<open>U+00A3, the currency marker of the extra-usage strings\<close>
  "pound_sign = [CHR 0xC2, CHR 0xA3]"

text \<open>
  Exceptions are values. Only the built-in exceptions that the operations of the module can
  raise are listed; the module defines no exception class of its own.
\<close>

datatype error = KeyError string | ValueError | ZeroDivisionError | IndexError

fun exn_name :: "error \<Rightarrow> string" where
  "exn_name (KeyError k) = ''KeyError''"
| "exn_name ValueError = ''ValueError''"
| "exn_name ZeroDivisionError = ''ZeroDivisionError''"
| "exn_name IndexError = ''IndexError''"

definition err_bind :: "error + 'a \<Rightarrow> ('a \<Rightarrow> error + 'b) \<Rightarrow> error + 'b" where
  \<comment> \<open>sequencing: an exception raised by the first computation ends the second\<close>
  "err_bind m f = (case m of Inl e \<Rightarrow> Inl e | Inr v \<Rightarrow> f v)"

subsection \<open>Strings\<close>

definition str_mul :: "string \<Rightarrow> int \<Rightarrow> string" where
  \<comment> \<open>\<^verbatim>\<open>s * n\<close>: the empty string when \<open>n \<le> 0\<close>\<close>
  "str_mul s n = concat (replicate (nat n) s)"

fun str_join :: "string \<Rightarrow> string list \<Rightarrow> string" where
  "str_join sep [] = []"
| "str_join sep [x] = x"
| "str_join sep (x # y # ys) = x @ sep @ str_join sep (y # ys)"

fun replace_pound :: "string \<Rightarrow> string" where
  \<comment> \<open>\<^verbatim>\<open>s.replace(pound, "")\<close>: every occurrence of the pound sign is removed,
      scanning from the left\<close>
  "replace_pound (a # b # s) =
     (if [a, b] = pound_sign then replace_pound s else a # replace_pound (b # s))"
| "replace_pound s = s"

fun str_nat :: "nat \<Rightarrow> string" where
  "str_nat n =
     (if n < 10 then [''0123456789'' ! n]
      else str_nat (n div 10) @ [''0123456789'' ! (n mod 10)])"

declare str_nat.simps [simp del]

definition str_int :: "int \<Rightarrow> string" where
  \<comment> \<open>\<^verbatim>\<open>str(n)\<close> and \<^verbatim>\<open>f"{n}"\<close> of an integer\<close>
  "str_int n = (if n < 0 then ''-'' @ str_nat (nat (- n)) else str_nat (nat n))"

definition format_3d :: "int \<Rightarrow> string" where
  \<comment> \<open>\<^verbatim>\<open>f"{n:3d}"\<close>: right-justified in a field of at least three characters\<close>
  "format_3d n = replicate (3 - length (str_int n)) CHR '' '' @ str_int n"

subsection \<open>Numbers\<close>

text \<open>
  A percentage reaches the bar renderer as a Python \<^verbatim>\<open>int\<close> (the three usage
  percentages) or \<^verbatim>\<open>float\<close> (the extra-usage percentage). Both are modelled by
  the rational number they denote, and \<^verbatim>\<open>/\<close> and \<^verbatim>\<open>*\<close> by exact
  arithmetic: the rounding error of binary floating point, overflow, infinities and NaN are
  outside this model. The built-in \<^verbatim>\<open>round\<close> with one argument returns the nearest
  integer and rounds a tie to the even neighbour.
\<close>

definition py_round :: "rat \<Rightarrow> int" where
  "py_round x =
     (let n = \<lfloor>x\<rfloor>; r = x - of_int n
      in if r < 1 / 2 then n else if 1 / 2 < r then n + 1 else if even n then n else n + 1)"

definition py_truediv :: "rat \<Rightarrow> rat \<Rightarrow> error + rat" where
  \<comment> \<open>\<^verbatim>\<open>a / b\<close> on floats\<close>
  "py_truediv a b = (if b = 0 then Inl ZeroDivisionError else Inr (a / b))"

text \<open>
  The built-in \<^verbatim>\<open>float\<close> is looked up by Python when the call is made, and the composer
  below takes it as its first argument \<open>pfloat\<close>: a function from a string to a number, or to
  the exception it raises. The general statements hold for every such function. The concrete
  scenarios use \<open>py_float\<close>, which reads the plain decimal literals (an optional sign, digits,
  an optional point and fraction) and raises \<^verbatim>\<open>ValueError\<close> on every other string. It
  agrees with the built-in on the plain decimal literals and on the strings that the built-in
  rejects; the further spellings that the built-in accepts (exponents, digit separators,
  surrounding white space, digits outside ASCII, the names of the non-finite values) are
  outside its domain, and no scenario below applies it to one.
\<close>

definition is_digit :: "char \<Rightarrow> bool" where
  "is_digit c = (c \<in> set ''0123456789'')"

definition digit_val :: "char \<Rightarrow> nat" where
  "digit_val c = of_char c - 48"

definition digits_val :: "string \<Rightarrow> nat" where
  "digits_val ds = foldl (\<lambda>acc c. 10 * acc + digit_val c) 0 ds"

definition py_float_unsigned :: "string \<Rightarrow> error + rat" where
  "py_float_unsigned s =
     (let ip = takeWhile (\<lambda>c. c \<noteq> CHR ''.'') s;
          rest = dropWhile (\<lambda>c. c \<noteq> CHR ''.'') s;
          fp = (if rest = [] then [] else tl rest)
      in if list_all is_digit ip \<and> list_all is_digit fp \<and> (ip \<noteq> [] \<or> fp \<noteq> [])
         then Inr (of_nat (digits_val (ip @ fp)) / of_nat (10 ^ length fp))
         else Inl ValueError)"

definition py_float :: "string \<Rightarrow> error + rat" where
  "py_float s =
     (case s of
        [] \<Rightarrow> Inl ValueError
      | c # cs \<Rightarrow>
          if c = CHR ''-'' then err_bind (py_float_unsigned cs) (\<lambda>v. Inr (- v))
          else if c = CHR ''+'' then py_float_unsigned cs
          else py_float_unsigned s)"

subsection \<open>Containers\<close>

definition list_getitem :: "'a list \<Rightarrow> int \<Rightarrow> error + 'a" where
  \<comment> \<open>\<^verbatim>\<open>xs[i]\<close>: an index below zero counts from the end, one out of range raises\<close>
  "list_getitem xs i =
     (if 0 \<le> i \<and> i < int (length xs) then Inr (xs ! nat i)
      else if - int (length xs) \<le> i \<and> i < 0 then Inr (xs ! nat (int (length xs) + i))
      else Inl IndexError)"

definition dict_getitem :: "(string \<times> 'v) list \<Rightarrow> string \<Rightarrow> error + 'v" where
  \<comment> \<open>\<^verbatim>\<open>d[k]\<close> on a dict, kept as the list of its items in insertion order\<close>
  "dict_getitem d k = (case map_of d k of None \<Rightarrow> Inl (KeyError k) | Some v \<Rightarrow> Inr v)"

section \<open>The module\<close>

subsection \<open>Constants\<close>

text \<open>
  Each value of \<^verbatim>\<open>THEME_CSS\<close> is a dict with exactly the keys \<^verbatim>\<open>"low"\<close>,
  \<^verbatim>\<open>"mid"\<close> and \<^verbatim>\<open>"high"\<close>; it is modelled by a record with these fields, and
  \<^verbatim>\<open>theme["low"]\<close> by the field selector.
\<close>

record theme =
  low :: string
  mid :: string
  high :: string

definition THEME_CSS :: "(string \<times> theme) list" where
  "THEME_CSS =
    [(''default'', \<lparr>low = ''#22c55e'', mid = ''#eab308'', high = ''#ef4444''\<rparr>),
     (''ocean'',   \<lparr>low = ''#06b6d4'', mid = ''#3b82f6'', high = ''#a855f7''\<rparr>),
     (''sunset'',  \<lparr>low = ''#eab308'', mid = ''#ff8800'', high = ''#ef4444''\<rparr>),
     (''neon'',    \<lparr>low = ''#4ade80'', mid = ''#facc15'', high = ''#f87171''\<rparr>),
     (''frost'',   \<lparr>low = ''#afffff'', mid = ''#5fafff'', high = ''#ffffff''\<rparr>),
     (''ember'',   \<lparr>low = ''#ffd700'', mid = ''#ff5f00'', high = ''#f87171''\<rparr>),
     (''candy'',   \<lparr>low = ''#ff87ff'', mid = ''#af87ff'', high = ''#00ffff''\<rparr>),
     (''pride'',   \<lparr>low = ''#af5fff'', mid = ''#00ffaf'', high = ''#ff00af''\<rparr>),
     (''mono'',    \<lparr>low = ''#d1d5db'', mid = ''#d1d5db'', high = ''#ffffff''\<rparr>),
     (''rainbow'', \<lparr>low = ''#ff0000'', mid = ''#00ff00'', high = ''#ff00ff''\<rparr>)]"

definition DIM_COLOR :: string where
  "DIM_COLOR = ''#3a3a3a''"

definition RAINBOW_COLORS :: "string list" where
  "RAINBOW_COLORS =
    [''#ff0000'', ''#ff8800'', ''#ffff00'', ''#00ff00'', ''#00ccff'',
     ''#0066ff'', ''#8800ff'', ''#ff00ff'', ''#ff0066'', ''#ff4444'']"

definition MASCOT_PIXELS :: "string list" where
  "MASCOT_PIXELS =
    [''..RRRRRRRRRRRR..'',
     ''..RRRRRRRRRRRR..'',
     ''..RDDRRRRRRDDR..'',
     ''..RDDRRRRRRDDR..'',
     ''..RRRRRRRRRRRR..'',
     ''RRRRRRRRRRRRRRRR'',
     ''RRRRRRRRRRRRRRRR'',
     ''..RRRRRRRRRRRR..'',
     ''..RRRRRRRRRRRR..'',
     ''..RRRRRRRRRRRR..'',
     ''..RR.RR..RR.RR..'',
     ''..RR.RR..RR.RR..'']"

subsection \<open>\<^verbatim>\<open>mascot_html\<close>\<close>

definition mascot_px :: "char \<Rightarrow> string" where
  \<comment> \<open>the body of the inner loop: the element appended for one character of a row\<close>
  \<open>mascot_px ch =
     (if ch = CHR ''R'' then ''<span class="px pr"></span>''
      else if ch = CHR ''D'' then ''<span class="px pd"></span>''
      else if ch = CHR ''N'' then ''<span class="px pn"></span>''
      else ''<span class="px"></span>'')\<close>

definition mascot_html :: string where
  "mascot_html =
     str_join ''\<newline>            ''
       (foldl (\<lambda>rows row. foldl (\<lambda>rows ch. rows @ [mascot_px ch]) rows row) [] MASCOT_PIXELS)"

subsection \<open>\<^verbatim>\<open>bar_color\<close> and \<^verbatim>\<open>render_bar_html\<close>\<close>

definition bar_color :: "rat \<Rightarrow> theme \<Rightarrow> string" where
  "bar_color pct theme =
     (if pct \<ge> 80 then high theme
      else if pct \<ge> 50 then mid theme
      else low theme)"

fun rainbow_parts :: "int \<Rightarrow> nat list \<Rightarrow> string \<Rightarrow> error + string" where
  \<comment> \<open>the loop \<^verbatim>\<open>for j in range(filled)\<close>, with the accumulator \<^verbatim>\<open>parts\<close>\<close>
  \<open>rainbow_parts color_offset [] parts = Inr parts\<close>
| \<open>rainbow_parts color_offset (j # js) parts =
     err_bind
       (list_getitem RAINBOW_COLORS ((int j + color_offset) mod int (length RAINBOW_COLORS)))
       (\<lambda>c. rainbow_parts color_offset js
              (parts @ ''<span style="color:'' @ c @ ''">'' @ box_heavy @ ''</span>''))\<close>

definition render_bar_html :: "rat \<Rightarrow> theme \<Rightarrow> int \<Rightarrow> bool \<Rightarrow> int \<Rightarrow> error + string" where
  \<open>render_bar_html pct theme width rainbow color_offset =
     (let filled = py_round (pct / 100 * of_int width);
          filled = max 0 (min width filled);
          empty = width - filled;
          e_chars = str_mul box_light empty
      in if rainbow \<and> filled > 0 then
           err_bind (rainbow_parts color_offset [0..<nat filled] [])
             (\<lambda>parts. Inr (parts @ ''<span style="color:'' @ DIM_COLOR @ ''">'' @ e_chars @ ''</span>''))
         else
           (let color = bar_color pct theme;
                f_chars = str_mul box_heavy filled
            in Inr (''<span style="color:'' @ color @ ''">'' @ f_chars @
                    ''</span><span style="color:'' @ DIM_COLOR @ ''">'' @ e_chars @ ''</span>'')))\<close>

subsection \<open>The composers\<close>

text \<open>
  Both composers bind the same local constants \<^verbatim>\<open>text_color\<close> and \<^verbatim>\<open>sep\<close> and
  build the same badge for \<^verbatim>\<open>show_update\<close>. A string that holds a fragment of HTML
  is given the type \<open>markup\<close>.
\<close>

type_synonym markup = string

definition text_color :: string where
  "text_color = ''#d1d5db''"

definition sep :: string where
  \<open>sep = ''<span class="sep">|</span>''\<close>

definition pulse_update_badge :: string where
  \<open>pulse_update_badge =
     sep @ ''<span style="color:#eab308;font-weight:bold">&#x2191; Pulse Update</span>''\<close>

definition claude_update_badge :: string where
  \<open>claude_update_badge =
     sep @ ''<span style="color:#eab308;font-weight:bold">&#x2191; Claude Update</span>''\<close>

definition reset_str :: "string \<Rightarrow> string" where
  "reset_str reset_time = (if reset_time \<noteq> [] then '' '' @ reset_time else ''       '')"

definition extra_pct :: "(string \<Rightarrow> error + rat) \<Rightarrow> string \<Rightarrow> string \<Rightarrow> error + rat" where
  \<comment> \<open>\<^verbatim>\<open>100 * float(extra_used.replace(pound, "")) / float(extra_limit.replace(pound, ""))\<close>,
      the operands evaluated from left to right\<close>
  "extra_pct pfloat extra_used extra_limit =
     err_bind (pfloat (replace_pound extra_used)) (\<lambda>used.
     err_bind (pfloat (replace_pound extra_limit)) (\<lambda>limit.
     py_truediv (100 * used) limit))"

definition extra_part ::
  "(string \<Rightarrow> error + rat) \<Rightarrow> theme \<Rightarrow> bool \<Rightarrow> int \<Rightarrow> string \<Rightarrow> string \<Rightarrow> error + string" where
  \<open>extra_part pfloat theme is_rainbow color_offset extra_used extra_limit =
     (if extra_used \<noteq> [] \<and> extra_limit \<noteq> [] then
        err_bind (extra_pct pfloat extra_used extra_limit) (\<lambda>pct.
        err_bind (render_bar_html pct theme 10 is_rainbow (color_offset + 9)) (\<lambda>extra_bar.
        Inr (sep @
             ''<span class="sl">Extra </span>'' @ extra_bar @
             ''<span class="sl"> '' @ extra_used @ ''/'' @ extra_limit @ ''</span>'')))
      else Inr [])\<close>

definition frame_status ::
  "markup \<Rightarrow> markup \<Rightarrow> markup \<Rightarrow> string \<Rightarrow> string \<Rightarrow> string \<Rightarrow> string \<Rightarrow>
   markup \<Rightarrow> markup \<Rightarrow> string \<Rightarrow> string \<Rightarrow> markup" where
  \<open>frame_status session_bar weekly_bar ctx_bar sp wp cp reset extra update plan model =
     ''<span class="sl">Session </span>'' @ session_bar @
     ''<span class="sl"> '' @ sp @ reset @ ''</span>'' @
     sep @
     ''<span class="sl">Weekly </span>'' @ weekly_bar @
     ''<span class="sl"> '' @ wp @ ''</span>'' @
     sep @
     ''<span class="sl">Context </span>'' @ ctx_bar @
     ''<span class="sl"> '' @ cp @ ''</span>'' @
     extra @
     update @
     sep @
     ''<span class="sl">'' @ plan @ ''</span>'' @
     sep @
     ''<span class="sl">'' @ model @ ''</span>''\<close>

definition statusline_status ::
  "markup \<Rightarrow> markup \<Rightarrow> markup \<Rightarrow> string \<Rightarrow> string \<Rightarrow> string \<Rightarrow> string \<Rightarrow>
   markup \<Rightarrow> string \<Rightarrow> string \<Rightarrow> markup" where
  \<open>statusline_status session_bar weekly_bar ctx_bar sp wp cp reset update plan model =
     ''<span class="sl">Session </span>'' @ session_bar @
     ''<span class="sl"> '' @ sp @ reset @ ''</span>'' @
     sep @
     ''<span class="sl">Weekly </span>'' @ weekly_bar @
     ''<span class="sl"> '' @ wp @ ''</span>'' @
     sep @
     ''<span class="sl">Context </span>'' @ ctx_bar @
     ''<span class="sl"> '' @ cp @ ''</span>'' @
     update @
     sep @
     ''<span class="sl">'' @ plan @ ''</span>'' @
     sep @
     ''<span class="sl">'' @ model @ ''</span>''\<close>

text \<open>
  The text of the two document templates, cut at the replacement fields:
  \<open>frame_html_0\<close> to \<open>frame_html_9\<close> for \<^verbatim>\<open>generate_frame_html\<close> and
  \<open>statusline_html_0\<close> to \<open>statusline_html_2\<close> for \<^verbatim>\<open>generate_statusline_html\<close>.
\<close>

definition frame_html_0 :: string where
  \<open>frame_html_0 =
    ''<!DOCTYPE html>\<newline>'' @
    ''<html>\<newline>'' @
    ''<head>\<newline>'' @
    ''<meta charset="utf-8">\<newline>'' @
    ''<style>\<newline>'' @
    ''  @import url('https://fonts.googleapis.com/css2?family=JetBrains+Mono:wght@400;500;700&display=swap');\<newline>'' @
    ''  * { margin: 0; padding: 0; box-sizing: border-box; }\<newline>'' @
    ''  body {\<newline>'' @
    ''    background: #ffffff;\<newline>'' @
    ''    display: flex;\<newline>'' @
    ''    align-items: center;\<newline>'' @
    ''    justify-content: center;\<newline>'' @
    ''    height: 100vh;\<newline>'' @
    ''    font-family: 'JetBrains Mono', 'Cascadia Code', 'Consolas', monospace;\<newline>'' @
    ''  }\<newline>'' @
    ''  .terminal {\<newline>'' @
    ''    background: #0c0c0c;\<newline>'' @
    ''    border-radius: 8px;\<newline>'' @
    ''    width: 920px;\<newline>'' @
    ''    height: 430px;\<newline>'' @
    ''    box-shadow: 0 8px 30px rgba(0,0,0,0.15), 0 0 0 1px rgba(0,0,0,0.08);\<newline>'' @
    ''    overflow: hidden;\<newline>'' @
    ''    display: flex;\<newline>'' @
    ''    flex-direction: column;\<newline>'' @
    ''    position: relative;\<newline>'' @
    ''  }\<newline>'' @
    ''  .titlebar {\<newline>'' @
    ''    background: #202020;\<newline>'' @
    ''    padding: 7px 12px;\<newline>'' @
    ''    display: flex;\<newline>'' @
    ''    align-items: center;\<newline>'' @
    ''    border-bottom: 1px solid #2a2a2a;\<newline>'' @
    ''    flex-shrink: 0;\<newline>'' @
    ''  }\<newline>'' @
    ''  .tab {\<newline>'' @
    ''    background: #0c0c0c;\<newline>'' @
    ''    color: #aaa;\<newline>'' @
    ''    font-size: 11px;\<newline>'' @
    ''    padding: 5px 14px;\<newline>'' @
    ''    border-radius: 6px 6px 0 0;\<newline>'' @
    ''    display: flex;\<newline>'' @
    ''    align-items: center;\<newline>'' @
    ''    gap: 6px;\<newline>'' @
    ''    border: 1px solid #2a2a2a;\<newline>'' @
    ''    border-bottom: none;\<newline>'' @
    ''    margin-bottom: -1px;\<newline>'' @
    ''  }\<newline>'' @
    ''  .tab-icon { color: #0078d4; font-size: 13px; }\<newline>'' @
    ''  .spacer { flex: 1; }\<newline>'' @
    ''  .win-controls { display: flex; gap: 0; }\<newline>'' @
    ''  .win-btn {\<newline>'' @
    ''    color: #888;\<newline>'' @
    ''    font-size: 11px;\<newline>'' @
    ''    padding: 4px 16px;\<newline>'' @
    ''    display: inline-flex;\<newline>'' @
    ''    align-items: center;\<newline>'' @
    ''    justify-content: center;\<newline>'' @
    ''  }\<newline>'' @
    ''\<newline>'' @
    ''  .body { flex: 1; display: flex; flex-direction: column; overflow: hidden; }\<newline>'' @
    ''\<newline>'' @
    ''  .conversation {\<newline>'' @
    ''    flex: 1;\<newline>'' @
    ''    padding: 14px 20px;\<newline>'' @
    ''    overflow: hidden;\<newline>'' @
    ''  }\<newline>'' @
    ''\<newline>'' @
    ''  /* '' @ box_light @ box_light @ '' Header '' @ box_light @ box_light @ '' */\<newline>'' @
    ''  .cc-title {\<newline>'' @
    ''    color: #d4a574;\<newline>'' @
    ''    font-size: 12px;\<newline>'' @
    ''    margin-bottom: 10px;\<newline>'' @
    ''    padding-bottom: 8px;\<newline>'' @
    ''    border-bottom: 1px solid #d4a57433;\<newline>'' @
    ''  }\<newline>'' @
    ''\<newline>'' @
    ''  /* '' @ box_light @ box_light @ '' Two-column welcome '' @ box_light @ box_light @ '' */\<newline>'' @
    ''  .welcome-row {\<newline>'' @
    ''    display: flex;\<newline>'' @
    ''    gap: 0;\<newline>'' @
    ''    margin-bottom: 12px;\<newline>'' @
    ''    border: 1px solid #d4a57455;\<newline>'' @
    ''    border-radius: 6px;\<newline>'' @
    ''    overflow: hidden;\<newline>'' @
    ''  }\<newline>'' @
    ''  .welcome-left {\<newline>'' @
    ''    flex: 0 0 200px;\<newline>'' @
    ''    display: flex;\<newline>'' @
    ''    flex-direction: column;\<newline>'' @
    ''    align-items: center;\<newline>'' @
    ''    padding: 12px 10px;\<newline>'' @
    ''    border-right: 1px solid #d4a57433;\<newline>'' @
    ''  }\<newline>'' @
    ''  .welcome-greeting {\<newline>'' @
    ''    color: #e0e0e0;\<newline>'' @
    ''    font-size: 12px;\<newline>'' @
    ''    font-weight: 500;\<newline>'' @
    ''    margin-bottom: 10px;\<newline>'' @
    ''    text-align: center;\<newline>'' @
    ''  }\<newline>'' @
    ''  .welcome-right {\<newline>'' @
    ''    flex: 1;\<newline>'' @
    ''    padding: 12px 14px;\<newline>'' @
    ''  }\<newline>'' @
    ''\<newline>'' @
    ''  /* Pixel mascot */\<newline>'' @
    ''  .mascot {\<newline>'' @
    ''    display: grid;\<newline>'' @
    ''    grid-template-columns: repeat(16, 6px);\<newline>'' @
    ''    grid-template-rows: repeat(12, 6px);\<newline>'' @
    ''    gap: 1px;\<newline>'' @
    ''    margin-bottom: 8px;\<newline>'' @
    ''  }\<newline>'' @
    ''  .px { width: 6px; height: 6px; background: transparent; }\<newline>'' @
    ''  .pr { background: #d4735c; }\<newline>'' @
    ''  .pd { background: #1a1a1a; }\<newline>'' @
    ''  .pn { background: #b85e48; }\<newline>'' @
    ''\<newline>'' @
    ''  .welcome-meta {\<newline>'' @
    ''    color: #888;\<newline>'' @
    ''    font-size: 10px;\<newline>'' @
    ''    text-align: center;\<newline>'' @
    ''    line-height: 1.5;\<newline>'' @
    ''  }\<newline>'' @
    ''\<newline>'' @
    ''  /* Right column */\<newline>'' @
    ''  .section-title {\<newline>'' @
    ''    color: #d4a574;\<newline>'' @
    ''    font-size: 11px;\<newline>'' @
    ''    margin-bottom: 4px;\<newline>'' @
    ''    font-weight: 500;\<newline>'' @
    ''  }\<newline>'' @
    ''  .tip-text {\<newline>'' @
    ''    color: #888;\<newline>'' @
    ''    font-size: 10.5px;\<newline>'' @
    ''    line-height: 1.6;\<newline>'' @
    ''    margin-bottom: 10px;\<newline>'' @
    ''  }\<newline>'' @
    ''  .recent-text {\<newline>'' @
    ''    color: #666;\<newline>'' @
    ''    font-size: 10.5px;\<newline>'' @
    ''  }\<newline>'' @
    ''\<newline>'' @
    ''  /* '' @ box_light @ box_light @ '' User message + Claude reply '' @ box_light @ box_light @ '' */\<newline>'' @
    ''  .user-msg {\<newline>'' @
    ''    margin-bottom: 8px;\<newline>'' @
    ''    margin-top: 4px;\<newline>'' @
    ''  }\<newline>'' @
    ''  .user-prompt {\<newline>'' @
    ''    display: flex;\<newline>'' @
    ''    align-items: center;\<newline>'' @
    ''    gap: 6px;\<newline>'' @
    ''  }\<newline>'' @
    ''  .user-prompt .arrow { color: #b388ff; font-size: 12px; }\<newline>'' @
    ''  .user-text {\<newline>'' @
    ''    color: #e0e0e0;\<newline>'' @
    ''    font-size: 12.5px;\<newline>'' @
    ''    font-weight: 500;\<newline>'' @
    ''  }\<newline>'' @
    ''\<newline>'' @
    ''  .claude-reply {\<newline>'' @
    ''    margin-bottom: 8px;\<newline>'' @
    ''  }\<newline>'' @
    ''  .claude-reply .dot { color: #b388ff; font-size: 12px; }\<newline>'' @
    ''  .claude-reply-text {\<newline>'' @
    ''    color: #ccc;\<newline>'' @
    ''    font-size: 12px;\<newline>'' @
    ''    display: flex;\<newline>'' @
    ''    align-items: center;\<newline>'' @
    ''    gap: 5px;\<newline>'' @
    ''  }\<newline>'' @
    ''\<newline>'' @
    ''  /* Prompt cursor */\<newline>'' @
    ''  .prompt-line {\<newline>'' @
    ''    display: flex;\<newline>'' @
    ''    align-items: center;\<newline>'' @
    ''    gap: 6px;\<newline>'' @
    ''    font-size: 13px;\<newline>'' @
    ''  }\<newline>'' @
    ''  .prompt-arrow { color: #b388ff; }\<newline>'' @
    ''  .cursor {\<newline>'' @
    ''    display: inline-block;\<newline>'' @
    ''    width: 8px;\<newline>'' @
    ''    height: 15px;\<newline>'' @
    ''    background: #b388ff;\<newline>'' @
    ''    opacity: 0.7;\<newline>'' @
    ''  }\<newline>'' @
    ''\<newline>'' @
    ''  /* '' @ box_light @ box_light @ '' Divider '' @ box_light @ box_light @ '' */\<newline>'' @
    ''  .divider {\<newline>'' @
    ''    border-top: 1px solid #222;\<newline>'' @
    ''    flex-shrink: 0;\<newline>'' @
    ''  }\<newline>'' @
    ''\<newline>'' @
    ''  /* '' @ box_light @ box_light @ '' Status bar '' @ box_light @ box_light @ '' */\<newline>'' @
    ''  .status-area {\<newline>'' @
    ''    padding: 8px 20px 6px 20px;\<newline>'' @
    ''    flex-shrink: 0;\<newline>'' @
    ''  }\<newline>'' @
    ''  .status-line {\<newline>'' @
    ''    font-size: 11.5px;\<newline>'' @
    ''    line-height: 1.5;\<newline>'' @
    ''    white-space: pre;\<newline>'' @
    ''    letter-spacing: 0;\<newline>'' @
    ''    font-variant-ligatures: none;\<newline>'' @
    ''  }\<newline>'' @
    ''  .sl { color: ''\<close>

definition frame_html_1 :: string where
  \<open>frame_html_1 =
    ''; }\<newline>'' @
    ''  .sep { color: #555; padding: 0 0.3em; }\<newline>'' @
    ''\<newline>'' @
    ''  /* '' @ box_light @ box_light @ '' Mode indicator '' @ box_light @ box_light @ '' */\<newline>'' @
    ''  .mode-bar {\<newline>'' @
    ''    padding: 2px 20px 10px 20px;\<newline>'' @
    ''    display: flex;\<newline>'' @
    ''    align-items: center;\<newline>'' @
    ''    gap: 8px;\<newline>'' @
    ''    flex-shrink: 0;\<newline>'' @
    ''  }\<newline>'' @
    ''  .mode-icon { color: #b388ff; font-size: 11px; }\<newline>'' @
    ''  .mode-text { color: #666; font-size: 11px; }\<newline>'' @
    ''  .mode-hint { color: #444; font-size: 10px; }\<newline>'' @
    ''\<newline>'' @
    ''  /* '' @ box_light @ box_light @ '' Theme badge '' @ box_light @ box_light @ '' */\<newline>'' @
    ''  .theme-overlay {\<newline>'' @
    ''    position: absolute;\<newline>'' @
    ''    bottom: 12px;\<newline>'' @
    ''    right: 20px;\<newline>'' @
    ''    display: flex;\<newline>'' @
    ''    align-items: center;\<newline>'' @
    ''    gap: 8px;\<newline>'' @
    ''  }\<newline>'' @
    ''  .theme-badge {\<newline>'' @
    ''    display: inline-block;\<newline>'' @
    ''    background: rgba(255,255,255,0.06);\<newline>'' @
    ''    border: 1px solid ''\<close>

definition frame_html_2 :: string where
  \<open>frame_html_2 =
    ''44;\<newline>'' @
    ''    color: ''\<close>

definition frame_html_3 :: string where
  \<open>frame_html_3 =
    '';\<newline>'' @
    ''    padding: 3px 12px;\<newline>'' @
    ''    border-radius: 4px;\<newline>'' @
    ''    font-size: 10px;\<newline>'' @
    ''    letter-spacing: 1.5px;\<newline>'' @
    ''    text-transform: uppercase;\<newline>'' @
    ''    font-weight: 500;\<newline>'' @
    ''  }\<newline>'' @
    ''  .frame-counter {\<newline>'' @
    ''    color: #444;\<newline>'' @
    ''    font-size: 10px;\<newline>'' @
    ''    letter-spacing: 1px;\<newline>'' @
    ''  }\<newline>'' @
    ''</style>\<newline>'' @
    ''</head>\<newline>'' @
    ''<body>\<newline>'' @
    ''  <div class="terminal">\<newline>'' @
    ''    <div class="titlebar">\<newline>'' @
    ''      <div class="tab"><span class="tab-icon">&#x276F;</span> Windows PowerShell</div>\<newline>'' @
    ''      <div class="spacer"></div>\<newline>'' @
    ''      <div class="win-controls">\<newline>'' @
    ''        <span class="win-btn">&#x2500;</span>\<newline>'' @
    ''        <span class="win-btn">&#x25A1;</span>\<newline>'' @
    ''        <span class="win-btn close">&#x2715;</span>\<newline>'' @
    ''      </div>\<newline>'' @
    ''    </div>\<newline>'' @
    ''\<newline>'' @
    ''    <div class="body">\<newline>'' @
    ''      <div class="conversation">\<newline>'' @
    ''        <div class="cc-title">Claude Code v2.1.36</div>\<newline>'' @
    ''\<newline>'' @
    ''        <div class="welcome-row">\<newline>'' @
    ''          <div class="welcome-left">\<newline>'' @
    ''            <div class="welcome-greeting">Welcome back NoobyGains!</div>\<newline>'' @
    ''            <div class="mascot">\<newline>'' @
    ''              ''\<close>

definition frame_html_4 :: string where
  \<open>frame_html_4 =
    ''\<newline>'' @
    ''            </div>\<newline>'' @
    ''            <div class="welcome-meta">\<newline>'' @
    ''              ''\<close>

definition frame_html_5 :: string where
  \<open>frame_html_5 =
    '' &middot; Claude Max<br>\<newline>'' @
    ''              C:'' @ [CHR 0x5C] @ ''Users'' @ [CHR 0x5C] @ ''David\<newline>'' @
    ''            </div>\<newline>'' @
    ''          </div>\<newline>'' @
    ''          <div class="welcome-right">\<newline>'' @
    ''            <div class="section-title">Tips for getting started</div>\<newline>'' @
    ''            <div class="tip-text">\<newline>'' @
    ''              Run <span style="color:#b388ff">/init</span> to create a CLAUDE.md file with instructions for Claude<br>\<newline>'' @
    ''              Note: You have launched claude in your home directory. For the best<br>\<newline>'' @
    ''              experience, navigate to a project folder first.\<newline>'' @
    ''            </div>\<newline>'' @
    ''            <div class="section-title">Recent activity</div>\<newline>'' @
    ''            <div class="recent-text">No recent activity</div>\<newline>'' @
    ''          </div>\<newline>'' @
    ''        </div>\<newline>'' @
    ''\<newline>'' @
    ''        <div class="user-msg">\<newline>'' @
    ''          <div class="user-prompt">\<newline>'' @
    ''            <span class="arrow">&#x276F;</span>\<newline>'' @
    ''            <span class="user-text">hello</span>\<newline>'' @
    ''          </div>\<newline>'' @
    ''        </div>\<newline>'' @
    ''\<newline>'' @
    ''        <div class="claude-reply">\<newline>'' @
    ''          <div class="claude-reply-text">\<newline>'' @
    ''            <span class="dot">&#x25CF;</span>\<newline>'' @
    ''            Hello! How can I help you today?\<newline>'' @
    ''          </div>\<newline>'' @
    ''        </div>\<newline>'' @
    ''\<newline>'' @
    ''        <div class="prompt-line">\<newline>'' @
    ''          <span class="prompt-arrow">&#x276F;</span>\<newline>'' @
    ''          <span class="cursor"></span>\<newline>'' @
    ''        </div>\<newline>'' @
    ''      </div>\<newline>'' @
    ''\<newline>'' @
    ''      <div class="divider"></div>\<newline>'' @
    ''      <div class="status-area">\<newline>'' @
    ''        <div class="status-line">''\<close>

definition frame_html_6 :: string where
  \<open>frame_html_6 =
    ''</div>\<newline>'' @
    ''      </div>\<newline>'' @
    ''      <div class="mode-bar">\<newline>'' @
    ''        <span class="mode-icon">&#x23F5;&#x23F5;</span>\<newline>'' @
    ''        <span class="mode-text">auto-accept edits</span>\<newline>'' @
    ''        <span class="mode-hint">(shift+tab to cycle)</span>\<newline>'' @
    ''      </div>\<newline>'' @
    ''    </div>\<newline>'' @
    ''\<newline>'' @
    ''    <div class="theme-overlay">\<newline>'' @
    ''      <span class="theme-badge">''\<close>

definition frame_html_7 :: string where
  \<open>frame_html_7 =
    ''</span>\<newline>'' @
    ''      <span class="frame-counter">''\<close>

definition frame_html_8 :: string where
  \<open>frame_html_8 =
    ''/''\<close>

definition frame_html_9 :: string where
  \<open>frame_html_9 =
    ''</span>\<newline>'' @
    ''    </div>\<newline>'' @
    ''  </div>\<newline>'' @
    ''</body>\<newline>'' @
    ''</html>''\<close>

definition statusline_html_0 :: string where
  \<open>statusline_html_0 =
    ''<!DOCTYPE html>\<newline>'' @
    ''<html>\<newline>'' @
    ''<head>\<newline>'' @
    ''<meta charset="utf-8">\<newline>'' @
    ''<style>\<newline>'' @
    ''  @import url('https://fonts.googleapis.com/css2?family=JetBrains+Mono:wght@400;500;700&display=swap');\<newline>'' @
    ''  * { margin: 0; padding: 0; box-sizing: border-box; }\<newline>'' @
    ''  body {\<newline>'' @
    ''    background: #ffffff;\<newline>'' @
    ''    display: flex;\<newline>'' @
    ''    align-items: center;\<newline>'' @
    ''    justify-content: center;\<newline>'' @
    ''    height: 60px;\<newline>'' @
    ''    font-family: 'JetBrains Mono', 'Cascadia Code', 'Consolas', monospace;\<newline>'' @
    ''  }\<newline>'' @
    ''  .bar {\<newline>'' @
    ''    background: #0c0c0c;\<newline>'' @
    ''    padding: 10px 20px;\<newline>'' @
    ''    width: 920px;\<newline>'' @
    ''    border-radius: 6px;\<newline>'' @
    ''    border: 1px solid #333;\<newline>'' @
    ''  }\<newline>'' @
    ''  .status-line {\<newline>'' @
    ''    font-size: 13px;\<newline>'' @
    ''    line-height: 1.5;\<newline>'' @
    ''    white-space: pre;\<newline>'' @
    ''    letter-spacing: 0;\<newline>'' @
    ''    font-variant-ligatures: none;\<newline>'' @
    ''  }\<newline>'' @
    ''  .sl { color: ''\<close>

definition statusline_html_1 :: string where
  \<open>statusline_html_1 =
    ''; }\<newline>'' @
    ''  .sep { color: #555; padding: 0 0.3em; }\<newline>'' @
    ''</style>\<newline>'' @
    ''</head>\<newline>'' @
    ''<body>\<newline>'' @
    ''  <div class="bar">\<newline>'' @
    ''    <div class="status-line">''\<close>

definition statusline_html_2 :: string where
  \<open>statusline_html_2 =
    ''</div>\<newline>'' @
    ''  </div>\<newline>'' @
    ''</body>\<newline>'' @
    ''</html>''\<close>

text \<open>
  The usage percentages are formatted with \<^verbatim>\<open>:3d\<close>, which accepts integers only, and
  the frame numbers are integers; \<^verbatim>\<open>desc\<close> is accepted and not used.
\<close>

definition generate_frame_html ::
  "(string \<Rightarrow> error + rat) \<Rightarrow> string \<Rightarrow> theme \<Rightarrow> int \<Rightarrow> int \<Rightarrow> int \<Rightarrow> string \<Rightarrow> string \<Rightarrow> string \<Rightarrow>
   int \<Rightarrow> int \<Rightarrow> string \<Rightarrow> bool \<Rightarrow> int \<Rightarrow> string \<Rightarrow> string \<Rightarrow> bool \<Rightarrow> error + string" where
  "generate_frame_html pfloat theme_name theme session_pct weekly_pct ctx_pct
       reset_time plan model frame_num total_frames desc
       is_rainbow color_offset extra_used extra_limit show_update =
     err_bind (render_bar_html (of_int session_pct) theme 10 is_rainbow color_offset)
       (\<lambda>session_bar.
     err_bind (render_bar_html (of_int weekly_pct) theme 10 is_rainbow (color_offset + 3))
       (\<lambda>weekly_bar.
     err_bind (render_bar_html (of_int ctx_pct) theme 10 is_rainbow (color_offset + 6))
       (\<lambda>ctx_bar.
     err_bind (extra_part pfloat theme is_rainbow color_offset extra_used extra_limit)
       (\<lambda>extra.
     let sp = format_3d session_pct @ ''%'';
         wp = format_3d weekly_pct @ ''%'';
         cp = format_3d ctx_pct @ ''%'';
         update = (if show_update then pulse_update_badge else []);
         status = frame_status session_bar weekly_bar ctx_bar sp wp cp (reset_str reset_time)
                    extra update plan model;
         badge_color = low theme;
         mascot = mascot_html
     in Inr (frame_html_0 @ text_color @ frame_html_1 @ badge_color @ frame_html_2 @
             badge_color @ frame_html_3 @ mascot @ frame_html_4 @ model @ frame_html_5 @
             status @ frame_html_6 @ theme_name @ frame_html_7 @ str_int frame_num @
             frame_html_8 @ str_int total_frames @ frame_html_9)))))"

definition generate_statusline_html ::
  "string \<Rightarrow> theme \<Rightarrow> int \<Rightarrow> int \<Rightarrow> int \<Rightarrow> string \<Rightarrow> string \<Rightarrow> string \<Rightarrow>
   int \<Rightarrow> int \<Rightarrow> bool \<Rightarrow> int \<Rightarrow> bool \<Rightarrow> bool \<Rightarrow> error + string" where
  "generate_statusline_html theme_name theme session_pct weekly_pct ctx_pct
       reset_time plan model frame_num total_frames
       is_rainbow color_offset show_update show_claude_update =
     err_bind (render_bar_html (of_int session_pct) theme 10 is_rainbow color_offset)
       (\<lambda>session_bar.
     err_bind (render_bar_html (of_int weekly_pct) theme 10 is_rainbow (color_offset + 3))
       (\<lambda>weekly_bar.
     err_bind (render_bar_html (of_int ctx_pct) theme 10 is_rainbow (color_offset + 6))
       (\<lambda>ctx_bar.
     let sp = format_3d session_pct @ ''%'';
         wp = format_3d weekly_pct @ ''%'';
         cp = format_3d ctx_pct @ ''%'';
         update = (if show_update then pulse_update_badge else []);
         update = (if show_claude_update then update @ claude_update_badge else update);
         status = statusline_status session_bar weekly_bar ctx_bar sp wp cp
                    (reset_str reset_time) update plan model
     in Inr (statusline_html_0 @ text_color @ statusline_html_1 @ status @
             statusline_html_2))))"

section \<open>Observations on the rendered markup\<close>

text \<open>
  The number of filled cells that \<^verbatim>\<open>render_bar_html\<close> computes in its first two
  statements, the colour it gives to the filled cell \<open>j\<close> in rainbow mode, and the two kinds
  of fragment it emits.
\<close>

definition bar_filled :: "rat \<Rightarrow> int \<Rightarrow> int" where
  "bar_filled pct width = max 0 (min width (py_round (pct / 100 * of_int width)))"

definition rainbow_color :: "nat \<Rightarrow> int \<Rightarrow> string" where
  "rainbow_color j color_offset =
     RAINBOW_COLORS ! nat ((int j + color_offset) mod int (length RAINBOW_COLORS))"

definition rainbow_cell :: "int \<Rightarrow> nat \<Rightarrow> markup" where
  \<open>rainbow_cell color_offset j =
     ''<span style="color:'' @ rainbow_color j color_offset @ ''">'' @ box_heavy @ ''</span>''\<close>

definition dim_span :: "int \<Rightarrow> markup" where
  \<open>dim_span n =
     ''<span style="color:'' @ DIM_COLOR @ ''">'' @ str_mul box_light n @ ''</span>''\<close>

definition bar_markup :: "rat \<Rightarrow> theme \<Rightarrow> int \<Rightarrow> bool \<Rightarrow> int \<Rightarrow> markup" where
  \<open>bar_markup pct theme width rainbow r =
     (if rainbow \<and> 0 < bar_filled pct width
      then concat (map (rainbow_cell r) [0..<nat (bar_filled pct width)])
      else ''<span style="color:'' @ bar_color pct theme @ ''">'' @
           str_mul box_heavy (bar_filled pct width) @ ''</span>'') @
     dim_span (width - bar_filled pct width)\<close>


definition glyph_free :: "string \<Rightarrow> bool" where
  "glyph_free s = (CHR 0xE2 \<notin> set s)"


section \<open>Auxiliary facts\<close>

subsection \<open>Rounding\<close>

lemma py_round_of_int [simp]: "py_round (of_int k) = k"
  by (simp add: py_round_def)



lemma py_round_nearest: "\<bar>of_int (py_round x) - x\<bar> \<le> 1 / 2"
proof -
  have "of_int \<lfloor>x\<rfloor> \<le> x" "x < of_int \<lfloor>x\<rfloor> + 1" by linarith+
  then show ?thesis by (auto simp add: py_round_def Let_def)
qed

lemma py_round_tie: "py_round (of_int n + 1 / 2) = (if even n then n else n + 1)"
proof -
  have "\<lfloor>(of_int n :: rat) + 1 / 2\<rfloor> = n"
    by (intro floor_unique) simp_all
  then show ?thesis
    by (simp add: py_round_def Let_def)
qed


subsection \<open>The bar renderer in closed form\<close>

lemma length_RAINBOW_COLORS [simp]: "length RAINBOW_COLORS = 10"
  by (simp add: RAINBOW_COLORS_def)

lemma getitem_RAINBOW_COLORS:
  "list_getitem RAINBOW_COLORS ((int j + r) mod int (length RAINBOW_COLORS)) = Inr (rainbow_color j r)"
  by (simp add: list_getitem_def rainbow_color_def)

lemma rainbow_parts_eq:
  "rainbow_parts r js parts = Inr (parts @ concat (map (rainbow_cell r) js))"
proof (induction js arbitrary: parts)
  case Nil
  show ?case by simp
next
  case (Cons j js)
  have "rainbow_parts r (j # js) parts = rainbow_parts r js (parts @ rainbow_cell r j)"
    by (simp only: rainbow_parts.simps getitem_RAINBOW_COLORS err_bind_def sum.case
          rainbow_cell_def)
  also have "\<dots> = Inr ((parts @ rainbow_cell r j) @ concat (map (rainbow_cell r) js))"
    by (rule Cons.IH)
  finally show ?case by simp
qed

lemma render_bar_html_eq:
  \<open>render_bar_html pct theme width rainbow r =
     Inr ((if rainbow \<and> 0 < bar_filled pct width
           then concat (map (rainbow_cell r) [0..<nat (bar_filled pct width)])
           else ''<span style="color:'' @ bar_color pct theme @ ''">'' @
                str_mul box_heavy (bar_filled pct width) @ ''</span>'') @
          dim_span (width - bar_filled pct width))\<close>
  by (simp add: render_bar_html_def Let_def rainbow_parts_eq err_bind_def bar_filled_def dim_span_def)


lemma err_bind_Inr [simp]: "err_bind (Inr v) f = f v"
  by (simp add: err_bind_def)

lemma err_bind_Inl [simp]: "err_bind (Inl e) f = Inl e"
  by (simp add: err_bind_def)

lemma render_bar_html_markup:
  "render_bar_html pct theme width rainbow r = Inr (bar_markup pct theme width rainbow r)"
  by (simp only: render_bar_html_eq bar_markup_def)




subsection \<open>Counting glyphs\<close>


















lemma glyph_free_literal [simp]:
  "glyph_free []" "glyph_free (c # s) = (c \<noteq> CHR 0xE2 \<and> glyph_free s)"
  by (auto simp: glyph_free_def)














subsection \<open>The full-mockup composer\<close>

lemma frame_form:
  \<open>\<exists>pre post. \<forall>extra_used extra_limit.
     generate_frame_html pfloat theme_name theme session_pct weekly_pct ctx_pct reset_time plan
       model frame_num total_frames desc is_rainbow color_offset extra_used extra_limit
       show_update =
     err_bind (extra_part pfloat theme is_rainbow color_offset extra_used extra_limit)
       (\<lambda>extra. Inr (pre @ extra @ post))\<close>
proof -
  define pre where \<open>pre =
     frame_html_0 @ text_color @ frame_html_1 @ low theme @ frame_html_2 @ low theme @
     frame_html_3 @ mascot_html @ frame_html_4 @ model @ frame_html_5 @
     ''<span class="sl">Session </span>'' @
     bar_markup (of_int session_pct) theme 10 is_rainbow color_offset @
     ''<span class="sl"> '' @ (format_3d session_pct @ ''%'') @ reset_str reset_time @ ''</span>'' @
     sep @
     ''<span class="sl">Weekly </span>'' @
     bar_markup (of_int weekly_pct) theme 10 is_rainbow (color_offset + 3) @
     ''<span class="sl"> '' @ (format_3d weekly_pct @ ''%'') @ ''</span>'' @
     sep @
     ''<span class="sl">Context </span>'' @
     bar_markup (of_int ctx_pct) theme 10 is_rainbow (color_offset + 6) @
     ''<span class="sl"> '' @ (format_3d ctx_pct @ ''%'') @ ''</span>''\<close>
  define post where \<open>post =
     (if show_update then pulse_update_badge else []) @
     sep @ ''<span class="sl">'' @ plan @ ''</span>'' @
     sep @ ''<span class="sl">'' @ model @ ''</span>'' @
     frame_html_6 @ theme_name @ frame_html_7 @ str_int frame_num @ frame_html_8 @
     str_int total_frames @ frame_html_9\<close>
  have "\<forall>extra_used extra_limit.
     generate_frame_html pfloat theme_name theme session_pct weekly_pct ctx_pct reset_time plan
       model frame_num total_frames desc is_rainbow color_offset extra_used extra_limit
       show_update =
     err_bind (extra_part pfloat theme is_rainbow color_offset extra_used extra_limit)
       (\<lambda>extra. Inr (pre @ extra @ post))"
    unfolding generate_frame_html_def frame_status_def pre_def post_def
    by (simp add: render_bar_html_markup Let_def)
  then show ?thesis by blast
qed


lemma extra_part_raises:
  "extra_used \<noteq> [] \<Longrightarrow> extra_limit \<noteq> [] \<Longrightarrow> extra_pct pfloat extra_used extra_limit = Inl e \<Longrightarrow>
   extra_part pfloat theme is_rainbow color_offset extra_used extra_limit = Inl e"
  by (simp add: extra_part_def)


lemma frame_raises:
  assumes "extra_used \<noteq> []" and "extra_limit \<noteq> []"
    and "extra_pct pfloat extra_used extra_limit = Inl e"
  shows "generate_frame_html pfloat theme_name theme session_pct weekly_pct ctx_pct reset_time
           plan model frame_num total_frames desc is_rainbow color_offset extra_used
           extra_limit show_update = Inl e"
proof -
  obtain pre post where
    "generate_frame_html pfloat theme_name theme session_pct weekly_pct ctx_pct reset_time
       plan model frame_num total_frames desc is_rainbow color_offset extra_used
       extra_limit show_update =
     err_bind (extra_part pfloat theme is_rainbow color_offset extra_used extra_limit)
       (\<lambda>extra. Inr (pre @ extra @ post))"
    using frame_form [of pfloat theme_name theme session_pct weekly_pct ctx_pct reset_time
        plan model frame_num total_frames desc is_rainbow color_offset show_update]
    by blast
  then show ?thesis
    by (simp add: extra_part_raises [OF assms])
qed

lemma extra_pct_used_raises:
  "pfloat (replace_pound extra_used) = Inl e \<Longrightarrow> extra_pct pfloat extra_used extra_limit = Inl e"
  by (simp add: extra_pct_def)

lemma extra_pct_limit_raises:
  "pfloat (replace_pound extra_used) = Inr u \<Longrightarrow> pfloat (replace_pound extra_limit) = Inl e \<Longrightarrow>
   extra_pct pfloat extra_used extra_limit = Inl e"
  by (simp add: extra_pct_def)

lemma extra_pct_zero_limit:
  "pfloat (replace_pound extra_used) = Inr u \<Longrightarrow> pfloat (replace_pound extra_limit) = Inr 0 \<Longrightarrow>
   extra_pct pfloat extra_used extra_limit = Inl ZeroDivisionError"
  by (simp add: extra_pct_def py_truediv_def)


lemma py_float_zero: "py_float (replace_pound (pound_sign @ ''0.00'')) = Inr 0"
  by code_simp


lemma py_float_error: "py_float s = Inl e \<Longrightarrow> e = ValueError"
  by (auto simp add: py_float_def py_float_unsigned_def Let_def err_bind_def
        split: list.splits if_splits sum.splits)




lemma THEME_CSS_names:
  "map fst THEME_CSS =
     [''default'', ''ocean'', ''sunset'', ''neon'', ''frost'', ''ember'', ''candy'', ''pride'',
      ''mono'', ''rainbow'']"
  by (simp add: THEME_CSS_def)

section \<open>The claims\<close>

subsection \<open>Fill counts\<close>



subsection \<open>Tier selection\<close>

text \<open>
  C2. The colour of a tiered bar is a step function of the percentage with breakpoints at 50
  and 80: \<open>pct \<ge> 80\<close> selects the high colour, \<open>50 \<le> pct < 80\<close> the mid colour and
  \<open>pct < 50\<close> the low colour; so 49 gives low, 50 and 79 give mid and 80 gives high. With
  the rainbow flag off, this one colour styles the whole filled region of the bar, at every
  width.
\<close>

theorem bar_color_step:
  \<open>(80 \<le> pct \<longrightarrow> bar_color pct theme = high theme) \<and>
   (50 \<le> pct \<and> pct < 80 \<longrightarrow> bar_color pct theme = mid theme) \<and>
   (pct < 50 \<longrightarrow> bar_color pct theme = low theme) \<and>
   bar_color 49 theme = low theme \<and> bar_color 50 theme = mid theme \<and>
   bar_color 79 theme = mid theme \<and> bar_color 80 theme = high theme \<and>
   (\<exists>f_chars rest.
      render_bar_html pct theme width False color_offset =
        Inr (''<span style="color:'' @ bar_color pct theme @ ''">'' @ f_chars @ ''</span>'' @ rest) \<and>
      f_chars = str_mul box_heavy (max 0 (min width (py_round (pct / 100 * of_int width)))))\<close>
  by (simp add: bar_color_def render_bar_html_def Let_def)

theorem bar_color_step_witness:
  \<open>bar_color 85 \<lparr>low = ''#22c55e'', mid = ''#eab308'', high = ''#ef4444''\<rparr> = ''#ef4444'' \<and>
   bar_color 62 \<lparr>low = ''#22c55e'', mid = ''#eab308'', high = ''#ef4444''\<rparr> = ''#eab308'' \<and>
   bar_color 12 \<lparr>low = ''#22c55e'', mid = ''#eab308'', high = ''#ef4444''\<rparr> = ''#22c55e''\<close>
  using bar_color_step [of 85 "\<lparr>low = ''#22c55e'', mid = ''#eab308'', high = ''#ef4444''\<rparr>"]
        bar_color_step [of 62 "\<lparr>low = ''#22c55e'', mid = ''#eab308'', high = ''#ef4444''\<rparr>"]
        bar_color_step [of 12 "\<lparr>low = ''#22c55e'', mid = ''#eab308'', high = ''#ef4444''\<rparr>"]
  by simp

subsection \<open>Percentages out of range\<close>



subsection \<open>Rainbow colours and the empty region\<close>




subsection \<open>Invalid extra-usage pairs\<close>

text \<open>
  C5, as the code has it. When both extra-usage strings are non-empty,
  \<^verbatim>\<open>generate_frame_html\<close> returns no document if either value fails to parse after its
  pound signs are removed, or if both parse and the limit is zero. It raises what the
  failing operation raises: the exception of \<^verbatim>\<open>float\<close> for the first value that does not
  parse, the used amount being read before the limit, and \<^verbatim>\<open>ZeroDivisionError\<close> for a
  zero limit. The parser \<open>py_float\<close> raises nothing but \<^verbatim>\<open>ValueError\<close>, and the pair
  of a zero used amount and a zero limit, each after a pound sign, raises
  \<^verbatim>\<open>ZeroDivisionError\<close>.
\<close>

theorem extra_usage_failures:
  assumes "extra_used \<noteq> []" and "extra_limit \<noteq> []"
  shows
    "(pfloat (replace_pound extra_used) = Inl e \<longrightarrow>
        generate_frame_html pfloat theme_name theme session_pct weekly_pct ctx_pct reset_time
          plan model frame_num total_frames desc is_rainbow color_offset extra_used
          extra_limit show_update = Inl e) \<and>
     (pfloat (replace_pound extra_used) = Inr u \<and> pfloat (replace_pound extra_limit) = Inl e \<longrightarrow>
        generate_frame_html pfloat theme_name theme session_pct weekly_pct ctx_pct reset_time
          plan model frame_num total_frames desc is_rainbow color_offset extra_used
          extra_limit show_update = Inl e) \<and>
     (pfloat (replace_pound extra_used) = Inr u \<and> pfloat (replace_pound extra_limit) = Inr 0 \<longrightarrow>
        generate_frame_html pfloat theme_name theme session_pct weekly_pct ctx_pct reset_time
          plan model frame_num total_frames desc is_rainbow color_offset extra_used
          extra_limit show_update = Inl ZeroDivisionError) \<and>
     (py_float s = Inl e \<longrightarrow> e = ValueError) \<and>
     generate_frame_html py_float theme_name theme session_pct weekly_pct ctx_pct reset_time
       plan model frame_num total_frames desc is_rainbow color_offset
       (pound_sign @ ''0.00'') (pound_sign @ ''0.00'') show_update = Inl ZeroDivisionError"
proof (intro conjI impI)
  assume "pfloat (replace_pound extra_used) = Inl e"
  then have "extra_pct pfloat extra_used extra_limit = Inl e"
    by (rule extra_pct_used_raises)
  with assms show "generate_frame_html pfloat theme_name theme session_pct weekly_pct ctx_pct
      reset_time plan model frame_num total_frames desc is_rainbow color_offset extra_used
      extra_limit show_update = Inl e"
    by (rule frame_raises)
next
  assume "pfloat (replace_pound extra_used) = Inr u \<and> pfloat (replace_pound extra_limit) = Inl e"
  then have "extra_pct pfloat extra_used extra_limit = Inl e"
    by (simp add: extra_pct_limit_raises)
  with assms show "generate_frame_html pfloat theme_name theme session_pct weekly_pct ctx_pct
      reset_time plan model frame_num total_frames desc is_rainbow color_offset extra_used
      extra_limit show_update = Inl e"
    by (rule frame_raises)
next
  assume "pfloat (replace_pound extra_used) = Inr u \<and> pfloat (replace_pound extra_limit) = Inr 0"
  then have "extra_pct pfloat extra_used extra_limit = Inl ZeroDivisionError"
    by (simp add: extra_pct_zero_limit)
  with assms show "generate_frame_html pfloat theme_name theme session_pct weekly_pct ctx_pct
      reset_time plan model frame_num total_frames desc is_rainbow color_offset extra_used
      extra_limit show_update = Inl ZeroDivisionError"
    by (rule frame_raises)
next
  assume "py_float s = Inl e"
  then show "e = ValueError" by (rule py_float_error)
next
  have "extra_pct py_float (pound_sign @ ''0.00'') (pound_sign @ ''0.00'') = Inl ZeroDivisionError"
    using py_float_zero py_float_zero by (rule extra_pct_zero_limit)
  then show "generate_frame_html py_float theme_name theme session_pct weekly_pct ctx_pct
      reset_time plan model frame_num total_frames desc is_rainbow color_offset
      (pound_sign @ ''0.00'') (pound_sign @ ''0.00'') show_update = Inl ZeroDivisionError"
    by (intro frame_raises) (simp_all add: pound_sign_def)
qed

theorem extra_usage_failures_witness:
  "''n/a'' \<noteq> [] \<and> pound_sign @ ''37.00'' \<noteq> [] \<and>
   py_float (replace_pound ''n/a'') = Inl ValueError \<and>
   generate_frame_html py_float ''default''
     \<lparr>low = ''#22c55e'', mid = ''#eab308'', high = ''#ef4444''\<rparr> 12 6 8 ''4h 52m''
     ''Max 20x'' ''Opus 4.6'' 1 46 ''low usage'' False 0 ''n/a'' (pound_sign @ ''37.00'') False =
   Inl ValueError"
proof -
  have a: "''n/a'' \<noteq> []" and b: "pound_sign @ ''37.00'' \<noteq> []"
    by (simp_all add: pound_sign_def)
  have p: "py_float (replace_pound ''n/a'') = Inl ValueError"
    by code_simp
  from extra_usage_failures [OF a b, of py_float ValueError] p a b show ?thesis
    by blast
qed

text \<open>
  The exception raised for the pair of two zero amounts is Python's own
  \<^verbatim>\<open>ZeroDivisionError\<close>: the module has no class \<^verbatim>\<open>InvalidExtraUsageError\<close> and no
  guard before the division.
\<close>

theorem zero_limit_counterexample:
  "generate_frame_html py_float ''default''
     \<lparr>low = ''#22c55e'', mid = ''#eab308'', high = ''#ef4444''\<rparr> 12 6 8 ''4h 52m''
     ''Max 20x'' ''Opus 4.6'' 1 46 ''low usage'' False 0
     (pound_sign @ ''0.00'') (pound_sign @ ''0.00'') False = Inl ZeroDivisionError \<and>
   exn_name ZeroDivisionError \<noteq> ''InvalidExtraUsageError''"
proof -
  have "extra_pct py_float (pound_sign @ ''0.00'') (pound_sign @ ''0.00'') = Inl ZeroDivisionError"
    using py_float_zero py_float_zero by (rule extra_pct_zero_limit)
  then have "generate_frame_html py_float ''default''
     \<lparr>low = ''#22c55e'', mid = ''#eab308'', high = ''#ef4444''\<rparr> 12 6 8 ''4h 52m''
     ''Max 20x'' ''Opus 4.6'' 1 46 ''low usage'' False 0
     (pound_sign @ ''0.00'') (pound_sign @ ''0.00'') False = Inl ZeroDivisionError"
    by (intro frame_raises) (simp_all add: pound_sign_def)
  then show ?thesis by simp
qed

subsection \<open>Theme lookup\<close>

text \<open>
  C6, as the code has it. \<^verbatim>\<open>THEME_CSS[name]\<close> returns the theme registered under the
  name when the name is one of the ten names of the registry, and raises
  \<^verbatim>\<open>KeyError\<close> with the name for every other name. The registry is a constant: no
  operation of the module takes it as a state or returns a changed one.
\<close>

theorem theme_lookup:
  "(name \<in> set (map fst THEME_CSS) \<longrightarrow>
      (\<exists>t. dict_getitem THEME_CSS name = Inr t \<and> (name, t) \<in> set THEME_CSS)) \<and>
   (name \<notin> set (map fst THEME_CSS) \<longrightarrow> dict_getitem THEME_CSS name = Inl (KeyError name)) \<and>
   map fst THEME_CSS =
     [''default'', ''ocean'', ''sunset'', ''neon'', ''frost'', ''ember'', ''candy'', ''pride'',
      ''mono'', ''rainbow'']"
proof (intro conjI impI)
  assume "name \<in> set (map fst THEME_CSS)"
  then obtain t where t: "map_of THEME_CSS name = Some t"
    by (metis map_of_eq_None_iff not_Some_eq set_map)
  then have "(name, t) \<in> set THEME_CSS"
    by (rule map_of_SomeD)
  with t show "\<exists>t. dict_getitem THEME_CSS name = Inr t \<and> (name, t) \<in> set THEME_CSS"
    by (simp add: dict_getitem_def)
next
  assume "name \<notin> set (map fst THEME_CSS)"
  then have "map_of THEME_CSS name = None"
    by (simp add: map_of_eq_None_iff)
  then show "dict_getitem THEME_CSS name = Inl (KeyError name)"
    by (simp add: dict_getitem_def)
next
  show "map fst THEME_CSS =
     [''default'', ''ocean'', ''sunset'', ''neon'', ''frost'', ''ember'', ''candy'', ''pride'',
      ''mono'', ''rainbow'']"
    by (rule THEME_CSS_names)
qed

theorem theme_lookup_witness:
  "''ocean'' \<in> set (map fst THEME_CSS) \<and>
   (\<exists>t. dict_getitem THEME_CSS ''ocean'' = Inr t \<and> (''ocean'', t) \<in> set THEME_CSS) \<and>
   ''solarized'' \<notin> set (map fst THEME_CSS) \<and>
   dict_getitem THEME_CSS ''solarized'' = Inl (KeyError ''solarized'')"
proof -
  have a: "''ocean'' \<in> set (map fst THEME_CSS)"
    by (simp add: THEME_CSS_names)
  have b: "''solarized'' \<notin> set (map fst THEME_CSS)"
    by (simp add: THEME_CSS_names)
  from theme_lookup [of "''ocean''"] theme_lookup [of "''solarized''"] a b show ?thesis
    by blast
qed

text \<open>
  The exception of a failed lookup is \<^verbatim>\<open>KeyError\<close>; the module has no class
  \<^verbatim>\<open>UnknownThemeError\<close>.
\<close>

theorem unknown_theme_counterexample:
  "dict_getitem THEME_CSS ''solarized'' = Inl (KeyError ''solarized'') \<and>
   exn_name (KeyError ''solarized'') \<noteq> ''UnknownThemeError''"
  by (simp add: dict_getitem_def THEME_CSS_def)

subsection \<open>Determinism\<close>

text \<open>
  C7. Each composer is a function of its arguments: it reads nothing else but the constants
  of the module and writes no state, so two invocations with the same arguments return the
  same document, or raise the same exception. The result is moreover fixed by the fields of the frame descriptor alone:
  \<^verbatim>\<open>generate_frame_html\<close> returns the same result whatever \<^verbatim>\<open>desc\<close> it is given,
  and \<^verbatim>\<open>generate_statusline_html\<close> whatever theme name and frame numbers.
\<close>

theorem composers_deterministic:
  "generate_frame_html pfloat theme_name theme session_pct weekly_pct ctx_pct reset_time plan
       model frame_num total_frames desc1 is_rainbow color_offset extra_used extra_limit
       show_update =
   generate_frame_html pfloat theme_name theme session_pct weekly_pct ctx_pct reset_time plan
       model frame_num total_frames desc2 is_rainbow color_offset extra_used extra_limit
       show_update \<and>
   generate_statusline_html name1 theme session_pct weekly_pct ctx_pct reset_time plan
       model num1 total1 is_rainbow color_offset show_update show_claude_update =
   generate_statusline_html name2 theme session_pct weekly_pct ctx_pct reset_time plan
       model num2 total2 is_rainbow color_offset show_update show_claude_update"
  unfolding generate_frame_html_def generate_statusline_html_def by (intro conjI refl)
subsection \<open>Update badges of the status line\<close>

text \<open>
  C8. The document of \<^verbatim>\<open>generate_statusline_html\<close> is a fixed prefix, then the Pulse
  Update badge if \<^verbatim>\<open>show_update\<close> is set, then the Claude Update badge if
  \<^verbatim>\<open>show_claude_update\<close> is set, then the plan and model segments and the end of the
  template. The two flags act independently, so there are zero, one or two badges, and with
  both flags set both badges are present, Pulse Update first.
\<close>

theorem statusline_update_badges:
  \<open>\<exists>pre post.
     post = sep @ ''<span class="sl">'' @ plan @ ''</span>'' @
            sep @ ''<span class="sl">'' @ model @ ''</span>'' @ statusline_html_2 \<and>
     (\<forall>show_update show_claude_update.
        generate_statusline_html theme_name theme session_pct weekly_pct ctx_pct reset_time plan
          model frame_num total_frames is_rainbow color_offset show_update show_claude_update =
        Inr (pre @
             (if show_update then pulse_update_badge else []) @
             (if show_claude_update then claude_update_badge else []) @
             post)) \<and>
     generate_statusline_html theme_name theme session_pct weekly_pct ctx_pct reset_time plan
       model frame_num total_frames is_rainbow color_offset False False =
     Inr (pre @ post) \<and>
     generate_statusline_html theme_name theme session_pct weekly_pct ctx_pct reset_time plan
       model frame_num total_frames is_rainbow color_offset True False =
     Inr (pre @ pulse_update_badge @ post) \<and>
     generate_statusline_html theme_name theme session_pct weekly_pct ctx_pct reset_time plan
       model frame_num total_frames is_rainbow color_offset False True =
     Inr (pre @ claude_update_badge @ post) \<and>
     generate_statusline_html theme_name theme session_pct weekly_pct ctx_pct reset_time plan
       model frame_num total_frames is_rainbow color_offset True True =
     Inr (pre @ pulse_update_badge @ claude_update_badge @ post)\<close>
proof -
  define pre where \<open>pre =
     statusline_html_0 @ text_color @ statusline_html_1 @
     ''<span class="sl">Session </span>'' @
     bar_markup (of_int session_pct) theme 10 is_rainbow color_offset @
     ''<span class="sl"> '' @ (format_3d session_pct @ ''%'') @ reset_str reset_time @ ''</span>'' @
     sep @
     ''<span class="sl">Weekly </span>'' @
     bar_markup (of_int weekly_pct) theme 10 is_rainbow (color_offset + 3) @
     ''<span class="sl"> '' @ (format_3d weekly_pct @ ''%'') @ ''</span>'' @
     sep @
     ''<span class="sl">Context </span>'' @
     bar_markup (of_int ctx_pct) theme 10 is_rainbow (color_offset + 6) @
     ''<span class="sl"> '' @ (format_3d ctx_pct @ ''%'') @ ''</span>''\<close>
  define post where \<open>post =
     sep @ ''<span class="sl">'' @ plan @ ''</span>'' @
     sep @ ''<span class="sl">'' @ model @ ''</span>'' @ statusline_html_2\<close>
  have form: "generate_statusline_html theme_name theme session_pct weekly_pct ctx_pct
       reset_time plan model frame_num total_frames is_rainbow color_offset su sc =
     Inr (pre @ (if su then pulse_update_badge else []) @
          (if sc then claude_update_badge else []) @ post)" for su sc
    unfolding generate_statusline_html_def statusline_status_def pre_def post_def
    by (simp add: render_bar_html_markup Let_def)
  have ff: "generate_statusline_html theme_name theme session_pct weekly_pct ctx_pct
       reset_time plan model frame_num total_frames is_rainbow color_offset False False =
     Inr (pre @ post)"
    by (simp add: form)
  have tf: "generate_statusline_html theme_name theme session_pct weekly_pct ctx_pct
       reset_time plan model frame_num total_frames is_rainbow color_offset True False =
     Inr (pre @ pulse_update_badge @ post)"
    by (simp add: form)
  have ft: "generate_statusline_html theme_name theme session_pct weekly_pct ctx_pct
       reset_time plan model frame_num total_frames is_rainbow color_offset False True =
     Inr (pre @ claude_update_badge @ post)"
    by (simp add: form)
  have tt: "generate_statusline_html theme_name theme session_pct weekly_pct ctx_pct
       reset_time plan model frame_num total_frames is_rainbow color_offset True True =
     Inr (pre @ pulse_update_badge @ claude_update_badge @ post)"
    by (simp add: form)
  show ?thesis
    apply (rule exI [of _ pre])
    apply (rule exI [of _ post])
    apply (intro conjI allI)
         apply (rule post_def)
        apply (rule form)
       apply (rule ff)
      apply (rule tf)
     apply (rule ft)
    apply (rule tt)
    done
qed

subsection \<open>The offset without rainbow\<close>

text \<open>
  C9. With the rainbow flag off, the bar renderer and both composers return the same result
  for every two colour offsets, all other arguments being equal.
\<close>

theorem offset_unused_without_rainbow:
  "render_bar_html pct theme width False r1 = render_bar_html pct theme width False r2 \<and>
   generate_frame_html pfloat theme_name theme session_pct weekly_pct ctx_pct reset_time plan
       model frame_num total_frames desc False r1 extra_used extra_limit show_update =
   generate_frame_html pfloat theme_name theme session_pct weekly_pct ctx_pct reset_time plan
       model frame_num total_frames desc False r2 extra_used extra_limit show_update \<and>
   generate_statusline_html theme_name theme session_pct weekly_pct ctx_pct reset_time plan
       model frame_num total_frames False r1 show_update show_claude_update =
   generate_statusline_html theme_name theme session_pct weekly_pct ctx_pct reset_time plan
       model frame_num total_frames False r2 show_update show_claude_update"
proof -
  have bar: "\<And>p w a b. render_bar_html p theme w False a = render_bar_html p theme w False b"
    by (simp add: render_bar_html_markup bar_markup_def)
  have extra: "extra_part pfloat theme False r1 extra_used extra_limit =
               extra_part pfloat theme False r2 extra_used extra_limit"
    unfolding extra_part_def by (simp only: bar [of _ _ "r1 + 9" "r2 + 9"])
  show ?thesis
    unfolding generate_frame_html_def generate_statusline_html_def
    by (simp only: extra bar [of _ _ r1 r2] bar [of _ _ "r1 + 3" "r2 + 3"]
          bar [of _ _ "r1 + 6" "r2 + 6"])
qed

subsection \<open>The extra-usage segment\<close>




end
